theory Spec2Isabelle
  imports Complex_Main
begin

section \<open>Distance calculation between two tracked objects\<close>

text \<open>
  A shallow embedding of \<^verbatim>\<open>ultralytics/solutions/distance_calculation.py\<close>, class
  \<^verbatim>\<open>DistanceCalculation\<close>. Python floats are idealised as \<^typ>\<open>real\<close>, Python ints are
  \<^typ>\<open>int\<close>, the attribute values \<^verbatim>\<open>None\<close> are \<^const>\<open>None\<close>, and the dict
  \<^verbatim>\<open>selected_boxes\<close> is an association list in insertion order, as Python dicts iterate.
  Every exception the interpreter would raise is a value, paired with the object's state at
  the moment of the raise.
\<close>

subsection \<open>Data\<close>

text \<open>A bounding box \<^verbatim>\<open>(x1, y1, x2, y2)\<close>, read by index in the source.\<close>

type_synonym box = "real \<times> real \<times> real \<times> real"

fun b0 :: "box \<Rightarrow> real" where "b0 (x1, y1, x2, y2) = x1"
fun b1 :: "box \<Rightarrow> real" where "b1 (x1, y1, x2, y2) = y1"
fun b2 :: "box \<Rightarrow> real" where "b2 (x1, y1, x2, y2) = x2"
fun b3 :: "box \<Rightarrow> real" where "b3 (x1, y1, x2, y2) = y2"

type_synonym boxdict = "(int \<times> box) list"

datatype py_error = TypeError | KeyError | IndexError | ZeroDivisionError

text \<open>
  The attributes of the object that the methods read or write. \<^verbatim>\<open>pixels_per_meter\<close>
  stands for \<^verbatim>\<open>self.args["pixels_per_meter"]\<close> and \<^verbatim>\<open>names\<close> for the dict
  \<^verbatim>\<open>self.args["names"]\<close> from class ids to labels.
\<close>

record state =
  pixels_per_meter :: real
  names :: "(int \<times> string) list"
  clss :: "int list option"
  boxes :: "box list option"
  trk_ids :: "int list option"
  centroids :: "(int \<times> int) list"
  left_mouse_count :: int
  selected_boxes :: boxdict

text \<open>The attribute values that \<^verbatim>\<open>__init__\<close> sets, for a given configuration.\<close>

definition init :: "real \<Rightarrow> (int \<times> string) list \<Rightarrow> state" where
  "init ppm nm = \<lparr>pixels_per_meter = ppm, names = nm, clss = None, boxes = None,
                  trk_ids = None, centroids = [], left_mouse_count = 0, selected_boxes = []\<rparr>"

text \<open>The event codes of OpenCV's \<^verbatim>\<open>cv2\<close> module.\<close>

definition EVENT_LBUTTONDOWN :: int where "EVENT_LBUTTONDOWN = 1"
definition EVENT_RBUTTONDOWN :: int where "EVENT_RBUTTONDOWN = 2"

subsection \<open>Dict operations\<close>

text \<open>\<^verbatim>\<open>k in d\<close>, \<^verbatim>\<open>d[k] = v\<close> (an existing key keeps its place, a new one goes last),
  \<^verbatim>\<open>d[k]\<close> and \<^verbatim>\<open>d.keys()\<close>.\<close>

definition dict_keys :: "boxdict \<Rightarrow> int list" where
  "dict_keys d = map fst d"

definition dict_contains :: "int \<Rightarrow> boxdict \<Rightarrow> bool" where
  "dict_contains k d = (k \<in> set (dict_keys d))"

fun dict_set :: "int \<Rightarrow> box \<Rightarrow> boxdict \<Rightarrow> boxdict" where
  "dict_set k v [] = [(k, v)]"
| "dict_set k v ((k', v') # d) = (if k' = k then (k, v) # d else (k', v') # dict_set k v d)"

definition dict_get :: "boxdict \<Rightarrow> int \<Rightarrow> py_error + box" where
  "dict_get d k = (case map_of d k of None \<Rightarrow> Inl KeyError | Some v \<Rightarrow> Inr v)"

subsection \<open>mouse_event_for_distance\<close>

text \<open>The test \<^verbatim>\<open>box[0] < x < box[2] and box[1] < y < box[3]\<close>.\<close>

definition inside :: "int \<Rightarrow> int \<Rightarrow> box \<Rightarrow> bool" where
  "inside x y box = (b0 box < real_of_int x \<and> real_of_int x < b2 box
                     \<and> b1 box < real_of_int y \<and> real_of_int y < b3 box)"

text \<open>The loop \<^verbatim>\<open>for box, track_id in zip(self.boxes, self.trk_ids)\<close>.\<close>

fun select_loop :: "int \<Rightarrow> int \<Rightarrow> (box \<times> int) list \<Rightarrow> boxdict \<Rightarrow> boxdict" where
  "select_loop x y [] d = d"
| "select_loop x y ((box, track_id) # rest) d =
     select_loop x y rest
       (if inside x y box \<and> \<not> dict_contains track_id d then dict_set track_id box d else d)"

text \<open>
  The handler; its parameters \<^verbatim>\<open>flags\<close> and \<^verbatim>\<open>param\<close> are never read. Iterating
  \<^verbatim>\<open>zip\<close> over \<^verbatim>\<open>None\<close> raises \<^verbatim>\<open>TypeError\<close>, after the counter was incremented.
\<close>

definition mouse_event_for_distance :: "int \<Rightarrow> int \<Rightarrow> int \<Rightarrow> state \<Rightarrow> (py_error \<times> state) + state" where
  "mouse_event_for_distance event x y s =
     (if event = EVENT_LBUTTONDOWN then
        (let s1 = s\<lparr>left_mouse_count := left_mouse_count s + 1\<rparr> in
         if left_mouse_count s1 \<le> 2 then
           (case boxes s1 of
              None \<Rightarrow> Inl (TypeError, s1)
            | Some bs \<Rightarrow>
                (case trk_ids s1 of
                   None \<Rightarrow> Inl (TypeError, s1)
                 | Some ids \<Rightarrow>
                     Inr (s1\<lparr>selected_boxes := select_loop x y (zip bs ids) (selected_boxes s1)\<rparr>)))
         else Inr s1)
      else if event = EVENT_RBUTTONDOWN then
        Inr (s\<lparr>selected_boxes := [], left_mouse_count := 0\<rparr>)
      else Inr s)"

subsection \<open>calculate_distance\<close>

definition pixel_distance :: "int \<times> int \<Rightarrow> int \<times> int \<Rightarrow> real" where
  "pixel_distance centroid1 centroid2 =
     sqrt (real_of_int ((fst centroid1 - fst centroid2)\<^sup>2 + (snd centroid1 - snd centroid2)\<^sup>2))"

text \<open>Python's division raises \<^verbatim>\<open>ZeroDivisionError\<close> on a zero divisor.\<close>

definition calculate_distance :: "real \<Rightarrow> int \<times> int \<Rightarrow> int \<times> int \<Rightarrow> py_error + (real \<times> real)" where
  "calculate_distance ppm centroid1 centroid2 =
     (if ppm = 0 then Inl ZeroDivisionError
      else (let distance_m = pixel_distance centroid1 centroid2 / ppm
            in Inr (distance_m, distance_m * 1000)))"

subsection \<open>start_process\<close>

text \<open>
  The loop body's inner loop \<^verbatim>\<open>for trk_id in self.selected_boxes.keys()\<close>, run when the
  dict holds two entries. Assigning to a key already present does not resize the dict, so
  the iteration goes through.
\<close>

definition refresh_one :: "box \<Rightarrow> int \<Rightarrow> boxdict \<Rightarrow> boxdict" where
  "refresh_one box track_id d =
     (if length d = 2
      then foldl (\<lambda>d' trk_id. if trk_id = track_id then dict_set track_id box d' else d')
                 d (dict_keys d)
      else d)"

text \<open>
  The loop \<^verbatim>\<open>for box, cls, track_id in zip(self.boxes, self.clss, self.trk_ids)\<close>. Its
  body first draws the label \<^verbatim>\<open>self.args["names"][int(cls)]\<close>, and the lookup raises
  \<^verbatim>\<open>KeyError\<close> for a class id without a name, with the dict as the detections before
  have left it. The drawing itself belongs to the renderer and is taken to succeed.
\<close>

fun refresh_loop ::
  "(int \<times> string) list \<Rightarrow> (box \<times> int \<times> int) list \<Rightarrow> boxdict \<Rightarrow> (py_error \<times> boxdict) + boxdict" where
  "refresh_loop nm [] d = Inr d"
| "refresh_loop nm ((box, cls, track_id) # rest) d =
     (case map_of nm cls of
        None \<Rightarrow> Inl (KeyError, d)
      | Some label \<Rightarrow> refresh_loop nm rest (refresh_one box track_id d))"

definition centroid_of :: "box \<Rightarrow> int \<times> int" where
  "centroid_of box = (\<lfloor>(b0 box + b2 box) / 2\<rfloor>, \<lfloor>(b1 box + b3 box) / 2\<rfloor>)"

text \<open>The comprehension over the dict's keys, each looked up again.\<close>

fun centroid_list :: "boxdict \<Rightarrow> int list \<Rightarrow> py_error + (int \<times> int) list" where
  "centroid_list d [] = Inr []"
| "centroid_list d (trk_id # ks) =
     (case dict_get d trk_id of
        Inl e \<Rightarrow> Inl e
      | Inr box \<Rightarrow> (case centroid_list d ks of
                      Inl e \<Rightarrow> Inl e
                    | Inr cs \<Rightarrow> Inr (centroid_of box # cs)))"

text \<open>
  What a frame hands to \<^verbatim>\<open>plot_distance_and_line\<close>: the distance in meters, in
  millimeters, and the two centroids.
\<close>

type_synonym plot = "real \<times> real \<times> (int \<times> int) list"

text \<open>
  The part of the frame cycle that runs when two entries are selected. The centroid list
  is stored in the object before the distance is computed.
\<close>

definition measure_selected :: "state \<Rightarrow> (py_error \<times> state) + (state \<times> plot option)" where
  "measure_selected s =
     (if length (selected_boxes s) = 2 then
        (case centroid_list (selected_boxes s) (dict_keys (selected_boxes s)) of
           Inl e \<Rightarrow> Inl (e, s)
         | Inr cs \<Rightarrow>
             (let s1 = s\<lparr>centroids := cs\<rparr> in
              case cs of
                c0 # c1 # _ \<Rightarrow>
                  (case calculate_distance (pixels_per_meter s1) c0 c1 of
                     Inl e \<Rightarrow> Inl (e, s1)
                   | Inr (distance_m, distance_mm) \<Rightarrow>
                       Inr (s1\<lparr>centroids := []\<rparr>, Some (distance_m, distance_mm, cs)))
              | _ \<Rightarrow> Inl (IndexError, s1)))
      else Inr (s\<lparr>centroids := []\<rparr>, None))"

text \<open>
  A frame. The argument is what \<^verbatim>\<open>solutions.extract_tracks(tracks)\<close> returned: the
  boxes, the classes and the track ids, any of which may be \<^verbatim>\<open>None\<close>. The window calls
  at the end of the method belong to the display and are left out, and so are the
  construction of the annotator and the image the method returns.
\<close>

type_synonym tracks = "box list option \<times> int list option \<times> int list option"

definition start_process :: "tracks \<Rightarrow> state \<Rightarrow> (py_error \<times> state) + (state \<times> plot option)" where
  "start_process tr s =
     (case tr of (bs_opt, cs_opt, ids_opt) \<Rightarrow>
        (let s1 = s\<lparr>boxes := bs_opt, clss := cs_opt, trk_ids := ids_opt\<rparr> in
         case trk_ids s1 of
           None \<Rightarrow> Inr (s1, None)
         | Some ids \<Rightarrow>
             (case boxes s1 of
                None \<Rightarrow> Inl (TypeError, s1)
              | Some bs \<Rightarrow>
                  (case clss s1 of
                     None \<Rightarrow> Inl (TypeError, s1)
                   | Some cs \<Rightarrow>
                       (case refresh_loop (names s1) (zip bs (zip cs ids)) (selected_boxes s1) of
                          Inl (e, d) \<Rightarrow> Inl (e, s1\<lparr>selected_boxes := d\<rparr>)
                        | Inr d \<Rightarrow> measure_selected (s1\<lparr>selected_boxes := d\<rparr>))))))"

subsection \<open>Sequences of events\<close>

datatype action = MouseEvent int int int | FrameStep tracks

definition step :: "action \<Rightarrow> state \<Rightarrow> (py_error \<times> state) + state" where
  "step a s =
     (case a of
        MouseEvent event x y \<Rightarrow> mouse_event_for_distance event x y s
      | FrameStep tr \<Rightarrow>
          (case start_process tr s of Inl e \<Rightarrow> Inl e | Inr (s', out) \<Rightarrow> Inr s'))"

text \<open>A run stops at the first exception, which leaves the state as it was at the raise.\<close>

fun run :: "action list \<Rightarrow> state \<Rightarrow> (py_error \<times> state) + state" where
  "run [] s = Inr s"
| "run (a # as) s = (case step a s of Inl e \<Rightarrow> Inl e | Inr s' \<Rightarrow> run as s')"

text \<open>The state an event leaves behind, raised or not.\<close>

definition post :: "(py_error \<times> state) + state \<Rightarrow> state" where
  "post r = (case r of Inl (e, s) \<Rightarrow> s | Inr s \<Rightarrow> s)"

definition post_frame :: "(py_error \<times> state) + (state \<times> plot option) \<Rightarrow> state" where
  "post_frame r = (case r of Inl (e, s) \<Rightarrow> s | Inr (s, out) \<Rightarrow> s)"

subsection \<open>Notions used in the statements\<close>

text \<open>The detections of the current frame whose box strictly contains the point.\<close>

definition hits :: "int \<Rightarrow> int \<Rightarrow> state \<Rightarrow> (box \<times> int) list" where
  "hits x y s =
     (case boxes s of
        None \<Rightarrow> []
      | Some bs \<Rightarrow> (case trk_ids s of
                     None \<Rightarrow> []
                   | Some ids \<Rightarrow> filter (\<lambda>p. inside x y (fst p)) (zip bs ids)))"

fun is_reset :: "action \<Rightarrow> bool" where
  "is_reset (MouseEvent event x y) = (event = EVENT_RBUTTONDOWN)"
| "is_reset (FrameStep tr) = False"

text \<open>Two left clicks are counted and nothing is selected.\<close>

definition saturated :: "state \<Rightarrow> bool" where
  "saturated s = (2 \<le> left_mouse_count s \<and> selected_boxes s = [])"

text \<open>The dict a pass of the refresh loop leaves behind, raised or not.\<close>

definition reached :: "(py_error \<times> boxdict) + boxdict \<Rightarrow> boxdict" where
  "reached r = (case r of Inl (e, d) \<Rightarrow> d | Inr d \<Rightarrow> d)"

text \<open>
  The detections whose refresh the loop gets to: all of them when every class id has a
  name, and otherwise those before the first class id without one.
\<close>

definition labelled :: "(int \<times> string) list \<Rightarrow> (box \<times> int \<times> int) list \<Rightarrow> (box \<times> int \<times> int) list" where
  "labelled nm dets = takeWhile (\<lambda>(box, cls, track_id). map_of nm cls \<noteq> None) dets"

text \<open>The box of the last detection in a list that carries track id \<open>t\<close>.\<close>

definition newest_box :: "int \<Rightarrow> (box \<times> int \<times> int) list \<Rightarrow> box option" where
  "newest_box t dets = map_of (rev (map (\<lambda>(box, cls, track_id). (track_id, box)) dets)) t"

subsection \<open>Concrete frames and states\<close>

text \<open>The class names of the module's own demonstration entry point.\<close>

definition example_names :: "(int \<times> string) list" where
  "example_names = [(0, ''person''), (1, ''car'')]"

text \<open>Two objects ten pixels wide, a hundred pixels apart.\<close>

definition scenario_tracks :: tracks where
  "scenario_tracks = (Some [(0, 0, 10, 10), (100, 0, 110, 10)], Some [0, 0], Some [1, 2])"

text \<open>Three objects, the first two overlapping.\<close>

definition overlap_tracks :: tracks where
  "overlap_tracks =
     (Some [(0, 0, 10, 10), (5, 5, 15, 15), (20, 20, 30, 30)], Some [0, 0, 0], Some [1, 2, 3])"

text \<open>The state once the frame \<^const>\<open>scenario_tracks\<close> was processed.\<close>

definition frame_seen :: state where
  "frame_seen =
     \<lparr>pixels_per_meter = 10, names = example_names, clss = Some [0, 0],
      boxes = Some [(0, 0, 10, 10), (100, 0, 110, 10)], trk_ids = Some [1, 2],
      centroids = [], left_mouse_count = 0, selected_boxes = []\<rparr>"

text \<open>The state once both objects of \<^const>\<open>scenario_tracks\<close> were clicked, for given
  class names.\<close>

definition scenario_selected :: "(int \<times> string) list \<Rightarrow> state" where
  "scenario_selected nm =
     \<lparr>pixels_per_meter = 10, names = nm, clss = Some [0, 0],
      boxes = Some [(0, 0, 10, 10), (100, 0, 110, 10)], trk_ids = Some [1, 2],
      centroids = [], left_mouse_count = 2,
      selected_boxes = [(1, (0, 0, 10, 10)), (2, (100, 0, 110, 10))]\<rparr>"

text \<open>The state once one click landed in the overlap of \<^const>\<open>overlap_tracks\<close>.\<close>

definition overlap_two_selected :: state where
  "overlap_two_selected =
     \<lparr>pixels_per_meter = 10, names = example_names, clss = Some [0, 0, 0],
      boxes = Some [(0, 0, 10, 10), (5, 5, 15, 15), (20, 20, 30, 30)], trk_ids = Some [1, 2, 3],
      centroids = [], left_mouse_count = 1,
      selected_boxes = [(1, (0, 0, 10, 10)), (2, (5, 5, 15, 15))]\<rparr>"

text \<open>The state once a second click landed on the third object.\<close>

definition overlap_three_selected :: state where
  "overlap_three_selected =
     \<lparr>pixels_per_meter = 10, names = example_names, clss = Some [0, 0, 0],
      boxes = Some [(0, 0, 10, 10), (5, 5, 15, 15), (20, 20, 30, 30)], trk_ids = Some [1, 2, 3],
      centroids = [], left_mouse_count = 2,
      selected_boxes = [(1, (0, 0, 10, 10)), (2, (5, 5, 15, 15)), (3, (20, 20, 30, 30))]\<rparr>"


section \<open>Evaluation rules and basic facts\<close>

lemmas handler_eval = init_def step_def mouse_event_for_distance_def Let_def
  dict_contains_def dict_keys_def EVENT_LBUTTONDOWN_def EVENT_RBUTTONDOWN_def

lemmas frame_eval = start_process_def measure_selected_def refresh_one_def dict_get_def
  centroid_of_def calculate_distance_def example_names_def

lemma post_simps [simp]: "post (Inr s) = s" "post (Inl (e, s)) = s"
  by (simp_all add: post_def)

lemma post_frame_simps [simp]: "post_frame (Inr (s, out)) = s" "post_frame (Inl (e, s)) = s"
  by (simp_all add: post_frame_def)

lemma reached_simps [simp]: "reached (Inr d) = d" "reached (Inl (e, d)) = d"
  by (simp_all add: reached_def)

subsection \<open>The dict\<close>

lemma dict_set_subset: "set (dict_set k v d) \<subseteq> insert (k, v) (set d)"
  by (induction k v d rule: dict_set.induct) (auto split: if_splits)



subsection \<open>The selection loop\<close>

lemma select_loop_entries:
  "(t, b) \<in> set (select_loop x y dets d) \<Longrightarrow>
     (t, b) \<in> set d \<or> ((b, t) \<in> set dets \<and> inside x y b)"
proof (induction dets arbitrary: d)
  case Nil
  then show ?case by simp
next
  case (Cons p dets)
  obtain box tid where p: "p = (box, tid)" by (cases p)
  let ?d' = "if inside x y box \<and> \<not> dict_contains tid d then dict_set tid box d else d"
  from Cons.prems have "(t, b) \<in> set (select_loop x y dets ?d')" by (simp add: p)
  from Cons.IH [OF this] show ?case
    using dict_set_subset [of tid box d] by (auto simp: p split: if_splits)
qed

lemma select_loop_miss:
  "\<forall>p\<in>set dets. \<not> inside x y (fst p) \<Longrightarrow> select_loop x y dets d = d"
  by (induction x y dets d rule: select_loop.induct) simp_all

lemma click_miss:
  assumes "boxes s = Some bs" and "trk_ids s = Some ids"
    and "\<forall>p\<in>set (zip bs ids). \<not> inside x y (fst p)"
  shows "mouse_event_for_distance EVENT_LBUTTONDOWN x y s
           = Inr (s\<lparr>left_mouse_count := left_mouse_count s + 1\<rparr>)"
  using assms by (simp add: mouse_event_for_distance_def Let_def select_loop_miss)

subsection \<open>The refresh loop\<close>




lemma refresh_loop_not_two: "length d \<noteq> 2 \<Longrightarrow> reached (refresh_loop nm dets d) = d"
  by (induction nm dets d rule: refresh_loop.induct)
    (simp_all add: refresh_one_def split: option.splits)




lemma labelled_all:
  "list_all (\<lambda>(box, cls, track_id). map_of nm cls \<noteq> None) dets \<Longrightarrow> labelled nm dets = dets"
  unfolding labelled_def by (induction dets) auto


lemma newest_box_Some: "newest_box t dets = Some b \<Longrightarrow> \<exists>cls. (b, cls, t) \<in> set dets"
  by (auto simp: newest_box_def dest!: map_of_SomeD)

subsection \<open>A frame\<close>

lemma measure_selected_fields:
  "selected_boxes (post_frame (measure_selected s)) = selected_boxes s"
  "left_mouse_count (post_frame (measure_selected s)) = left_mouse_count s"
  by (auto simp: measure_selected_def Let_def split: sum.splits list.splits prod.splits)

lemma start_process_selected:
  "selected_boxes (post_frame (start_process (bs_opt, cs_opt, ids_opt) s))
     = (case bs_opt of
          None \<Rightarrow> selected_boxes s
        | Some bs \<Rightarrow>
            (case cs_opt of
               None \<Rightarrow> selected_boxes s
             | Some cs \<Rightarrow>
                 (case ids_opt of
                    None \<Rightarrow> selected_boxes s
                  | Some ids \<Rightarrow>
                      reached (refresh_loop (names s) (zip bs (zip cs ids)) (selected_boxes s)))))"
  by (auto simp: start_process_def Let_def measure_selected_fields
      split: option.splits sum.splits)

lemma start_process_count:
  "left_mouse_count (post_frame (start_process tr s)) = left_mouse_count s"
  by (cases tr) (auto simp: start_process_def Let_def measure_selected_fields
      split: option.splits sum.splits)


lemma start_process_not_two:
  "length (selected_boxes s) \<noteq> 2 \<Longrightarrow>
   selected_boxes (post_frame (start_process tr s)) = selected_boxes s"
  by (cases tr) (simp add: start_process_selected refresh_loop_not_two split: option.splits)

lemma post_step_frame: "post (step (FrameStep tr) s) = post_frame (start_process tr s)"
  by (auto simp: step_def split: sum.splits)

subsection \<open>The concrete runs\<close>

lemma pixel_distance_commute: "pixel_distance a b = pixel_distance b a"
  by (simp add: pixel_distance_def power2_commute [of "fst a" "fst b"]
      power2_commute [of "snd a" "snd b"])

lemma pixel_distance_scenario:
  "pixel_distance (5, 5) (105, 5) = 100" "pixel_distance (105, 5) (5, 5) = 100"
proof -
  have "sqrt (real_of_int ((5 - 105)\<^sup>2 + (5 - 5)\<^sup>2)) = sqrt (100\<^sup>2)" by simp
  also have "\<dots> = 100" by simp
  finally show "pixel_distance (5, 5) (105, 5) = 100" by (simp add: pixel_distance_def)
  then show "pixel_distance (105, 5) (5, 5) = 100" by (simp add: pixel_distance_commute)
qed

lemma overlap_run:
  "run [FrameStep overlap_tracks, MouseEvent EVENT_LBUTTONDOWN 7 7] (init 10 example_names)
     = Inr overlap_two_selected"
  by (simp add: handler_eval frame_eval inside_def overlap_tracks_def overlap_two_selected_def)


section \<open>The distance estimator\<close>

text \<open>
  Claim C6. For centroids \<open>(x1, y1)\<close> and \<open>(x2, y2)\<close> and a calibration constant \<open>c\<close>
  (nonzero, as a divisor is), \<^const>\<open>calculate_distance\<close> returns the pair of \<open>d / c\<close> and
  \<open>1000 * (d / c)\<close>, where \<open>d\<close> is the Euclidean distance of the two points in pixels.
  Floats are read as reals.
\<close>

theorem calculate_distance_value:
  assumes "c \<noteq> 0"
  shows "calculate_distance c (x1, y1) (x2, y2) =
         Inr (sqrt (real_of_int ((x1 - x2)\<^sup>2 + (y1 - y2)\<^sup>2)) / c,
              1000 * (sqrt (real_of_int ((x1 - x2)\<^sup>2 + (y1 - y2)\<^sup>2)) / c))"
  using assms by (simp add: calculate_distance_def pixel_distance_def Let_def)

text \<open>
  The 3-4-5 triangle at four pixels per meter.
\<close>

theorem calculate_distance_value_witness:
  "(4::real) \<noteq> 0 \<and> calculate_distance 4 (0, 0) (3, 4) = Inr (5 / 4, 1250)"
proof -
  have nz: "(4::real) \<noteq> 0" by simp
  have "sqrt (real_of_int ((0 - 3)\<^sup>2 + (0 - 4)\<^sup>2)) = sqrt (5\<^sup>2)" by simp
  also have "\<dots> = 5" by simp
  finally have sq: "sqrt (real_of_int ((0 - 3)\<^sup>2 + (0 - 4)\<^sup>2)) = 5" .
  show ?thesis
    using calculate_distance_value [OF nz, of 0 0 3 4] nz unfolding sq by simp
qed

text \<open>
  Claim C7. \<^const>\<open>calculate_distance\<close> gives the same result when its two centroids are
  exchanged, for every calibration constant.
\<close>

theorem calculate_distance_symmetric:
  "calculate_distance c a b = calculate_distance c b a"
  by (simp add: calculate_distance_def pixel_distance_commute [of a b])

section \<open>The mouse handler\<close>

text \<open>
  Claim C5. A right-button event, in any state, returns normally with an empty selection
  and a click counter of zero.
\<close>

theorem secondary_click_resets:
  "\<exists>s'. mouse_event_for_distance EVENT_RBUTTONDOWN x y s = Inr s'
        \<and> selected_boxes s' = [] \<and> left_mouse_count s' = 0"
  by (simp add: mouse_event_for_distance_def EVENT_LBUTTONDOWN_def EVENT_RBUTTONDOWN_def)

text \<open>
  Claim C10. Whatever entry a left click adds to the selection is a detection of the
  current frame whose box strictly contains the click point: \<open>x1 < x < x2\<close> and
  \<open>y1 < y < y2\<close>. A point on the boundary of a box therefore never selects that box.
\<close>

theorem click_selects_only_inside:
  assumes "(t, b) \<in> set (selected_boxes (post (mouse_event_for_distance EVENT_LBUTTONDOWN x y s)))"
    and "(t, b) \<notin> set (selected_boxes s)"
  shows "(\<exists>bs ids. boxes s = Some bs \<and> trk_ids s = Some ids \<and> (b, t) \<in> set (zip bs ids))
       \<and> b0 b < real_of_int x \<and> real_of_int x < b2 b
       \<and> b1 b < real_of_int y \<and> real_of_int y < b3 b
       \<and> real_of_int x \<noteq> b0 b \<and> real_of_int x \<noteq> b2 b
       \<and> real_of_int y \<noteq> b1 b \<and> real_of_int y \<noteq> b3 b"
proof -
  have "(\<exists>bs ids. boxes s = Some bs \<and> trk_ids s = Some ids \<and> (b, t) \<in> set (zip bs ids))
        \<and> inside x y b"
    using assms select_loop_entries [of t b x y _ "selected_boxes s"]
    by (auto simp: mouse_event_for_distance_def post_def Let_def
        split: if_splits option.splits)
  then show ?thesis by (auto simp: inside_def)
qed

text \<open>
  A click in the middle of the first object selects it.
\<close>

theorem click_selects_only_inside_witness:
  "(1, (0, 0, 10, 10))
     \<in> set (selected_boxes (post (mouse_event_for_distance EVENT_LBUTTONDOWN 5 5 frame_seen)))
   \<and> (1, (0, 0, 10, 10)) \<notin> set (selected_boxes frame_seen)
   \<and> (\<exists>bs ids. boxes frame_seen = Some bs \<and> trk_ids frame_seen = Some ids
         \<and> ((0, 0, 10, 10), 1) \<in> set (zip bs ids))
   \<and> b0 (0, 0, 10, 10) < real_of_int 5 \<and> real_of_int 5 < b2 (0, 0, 10, 10)
   \<and> b1 (0, 0, 10, 10) < real_of_int 5 \<and> real_of_int 5 < b3 (0, 0, 10, 10)"
proof -
  have h1: "(1, (0, 0, 10, 10))
     \<in> set (selected_boxes (post (mouse_event_for_distance EVENT_LBUTTONDOWN 5 5 frame_seen)))"
    by (simp add: handler_eval inside_def frame_seen_def)
  have h2: "(1, (0, 0, 10, 10)) \<notin> set (selected_boxes frame_seen)"
    by (simp add: frame_seen_def)
  from click_selects_only_inside [OF h1 h2] h1 h2 show ?thesis by blast
qed

text \<open>
  Claim C3 fails on the code. The handler lets a click through while the click counter is
  at most two, whatever the size of the selection. One click in the overlap of two boxes
  selects both and counts as one click; with these two selected, the next click on a
  third object adds a third entry.
\<close>

theorem third_object_after_one_click:
  "run [FrameStep overlap_tracks, MouseEvent EVENT_LBUTTONDOWN 7 7] (init 10 example_names)
     = Inr overlap_two_selected
   \<and> length (selected_boxes overlap_two_selected) = 2
   \<and> mouse_event_for_distance EVENT_LBUTTONDOWN 25 25 overlap_two_selected
     = Inr overlap_three_selected
   \<and> selected_boxes overlap_three_selected \<noteq> selected_boxes overlap_two_selected
   \<and> selected_boxes overlap_three_selected
     = selected_boxes overlap_two_selected @ [(3, (20, 20, 30, 30))]"
  using overlap_run
  by (simp add: handler_eval inside_def overlap_two_selected_def overlap_three_selected_def)

text \<open>
  Claim C4. The handler is not total: a left click on a fresh object, whose \<^verbatim>\<open>boxes\<close>
  and \<^verbatim>\<open>trk_ids\<close> are still \<^verbatim>\<open>None\<close>, raises \<^verbatim>\<open>TypeError\<close>, and so does a left click
  after a frame for which the tracker supplied no track ids.
\<close>

theorem click_without_detections_raises:
  "mouse_event_for_distance EVENT_LBUTTONDOWN x y (init ppm nm)
     = Inl (TypeError, (init ppm nm)\<lparr>left_mouse_count := 1\<rparr>)
   \<and> run [FrameStep (bs, cs, None), MouseEvent EVENT_LBUTTONDOWN x y] (init ppm nm)
     = Inl (TypeError, (init ppm nm)\<lparr>clss := cs, boxes := bs, trk_ids := None, left_mouse_count := 1\<rparr>)"
  by (simp add: mouse_event_for_distance_def Let_def init_def step_def start_process_def
      split: option.splits)

section \<open>Runs of events\<close>

subsection \<open>Counted clicks\<close>

lemma step_saturated:
  assumes "saturated s" and "\<not> is_reset a"
  shows "saturated (post (step a s))"
proof (cases a)
  case (MouseEvent event x y)
  with assms show ?thesis
    by (auto simp: step_def saturated_def mouse_event_for_distance_def Let_def)
next
  case (FrameStep tr)
  from assms(1) have "length (selected_boxes s) \<noteq> 2" by (simp add: saturated_def)
  from start_process_not_two [OF this, of tr] start_process_count [of tr s] assms(1)
  show ?thesis by (simp add: FrameStep post_step_frame saturated_def)
qed

lemma run_saturated:
  "saturated s \<Longrightarrow> \<forall>a\<in>set acts. \<not> is_reset a \<Longrightarrow> saturated (post (run acts s))"
proof (induction acts arbitrary: s)
  case Nil
  then show ?case by simp
next
  case (Cons a acts)
  from Cons.prems have s1: "saturated (post (step a s))" by (intro step_saturated) simp_all
  show ?case
  proof (cases "step a s")
    case (Inl e)
    with s1 show ?thesis by (cases e) simp
  next
    case (Inr s')
    with s1 Cons.prems have "saturated s'" "\<forall>a\<in>set acts. \<not> is_reset a" by simp_all
    from Cons.IH [OF this] Inr show ?thesis by simp
  qed
qed

text \<open>
  Claim C9. Every left click increments the click counter, whatever it hits and
  whatever the state. Two left clicks that hit no detection, from a state with a zero
  counter and an empty selection, leave the counter at two and the selection empty; and
  then no sequence of further left clicks, other events and frames without a right-button
  reset selects anything.
\<close>

theorem missed_clicks_use_up_the_counter:
  assumes "boxes s = Some bs" and "trk_ids s = Some ids"
    and "left_mouse_count s = 0" and "selected_boxes s = []"
    and "\<forall>p\<in>set (zip bs ids). \<not> inside x1 y1 (fst p)"
    and "\<forall>p\<in>set (zip bs ids). \<not> inside x2 y2 (fst p)"
    and "\<forall>a\<in>set acts. \<not> is_reset a"
  shows "left_mouse_count (post (mouse_event_for_distance EVENT_LBUTTONDOWN x y t))
           = left_mouse_count t + 1
       \<and> run [MouseEvent EVENT_LBUTTONDOWN x1 y1, MouseEvent EVENT_LBUTTONDOWN x2 y2] s
           = Inr (s\<lparr>left_mouse_count := 2\<rparr>)
       \<and> selected_boxes (post (run (MouseEvent EVENT_LBUTTONDOWN x1 y1
                                      # MouseEvent EVENT_LBUTTONDOWN x2 y2 # acts) s)) = []"
proof -
  have incr: "left_mouse_count (post (mouse_event_for_distance EVENT_LBUTTONDOWN x y t))
                = left_mouse_count t + 1"
    by (simp add: mouse_event_for_distance_def Let_def split: option.splits)
  let ?s1 = "s\<lparr>left_mouse_count := left_mouse_count s + 1\<rparr>"
  let ?s2 = "s\<lparr>left_mouse_count := 2\<rparr>"
  have c1: "mouse_event_for_distance EVENT_LBUTTONDOWN x1 y1 s = Inr ?s1"
    using assms(1,2,5) by (rule click_miss)
  have "mouse_event_for_distance EVENT_LBUTTONDOWN x2 y2 ?s1
          = Inr (?s1\<lparr>left_mouse_count := left_mouse_count ?s1 + 1\<rparr>)"
    using assms(1,2,6) by (intro click_miss [where bs = bs and ids = ids]) simp_all
  then have c2: "mouse_event_for_distance EVENT_LBUTTONDOWN x2 y2 ?s1 = Inr ?s2"
    using assms(3) by simp
  have two: "run [MouseEvent EVENT_LBUTTONDOWN x1 y1, MouseEvent EVENT_LBUTTONDOWN x2 y2] s = Inr ?s2"
    by (simp add: step_def c1 c2)
  have "saturated ?s2" using assms(4) by (simp add: saturated_def)
  from run_saturated [OF this assms(7)]
  have "selected_boxes (post (run acts ?s2)) = []" by (simp add: saturated_def)
  then have rest: "selected_boxes (post (run (MouseEvent EVENT_LBUTTONDOWN x1 y1
                        # MouseEvent EVENT_LBUTTONDOWN x2 y2 # acts) s)) = []"
    by (simp add: step_def c1 c2)
  from incr two rest show ?thesis by blast
qed

text \<open>
  Two clicks between the objects, then a click on the first object, then a frame.
\<close>

theorem missed_clicks_use_up_the_counter_witness:
  "boxes frame_seen = Some [(0, 0, 10, 10), (100, 0, 110, 10)]
   \<and> trk_ids frame_seen = Some [1, 2]
   \<and> left_mouse_count frame_seen = 0 \<and> selected_boxes frame_seen = []
   \<and> hits 50 50 frame_seen = [] \<and> hits 60 5 frame_seen = []
   \<and> list_all (\<lambda>a. \<not> is_reset a) [MouseEvent EVENT_LBUTTONDOWN 5 5, FrameStep scenario_tracks]
   \<and> left_mouse_count (post (mouse_event_for_distance EVENT_LBUTTONDOWN 50 50 frame_seen)) = 1
   \<and> selected_boxes (post (run [MouseEvent EVENT_LBUTTONDOWN 50 50,
        MouseEvent EVENT_LBUTTONDOWN 60 5, MouseEvent EVENT_LBUTTONDOWN 5 5,
        FrameStep scenario_tracks] frame_seen)) = []"
proof -
  have h1: "boxes frame_seen = Some [(0, 0, 10, 10), (100, 0, 110, 10)]"
    and h2: "trk_ids frame_seen = Some [1, 2]"
    and h3: "left_mouse_count frame_seen = 0" and h4: "selected_boxes frame_seen = []"
    by (simp_all add: frame_seen_def)
  have h5: "\<forall>p\<in>set (zip [(0, 0, 10, 10), (100, 0, 110, 10)] [1, 2]). \<not> inside 50 50 (fst p)"
    and h6: "\<forall>p\<in>set (zip [(0, 0, 10, 10), (100, 0, 110, 10)] [1, 2]). \<not> inside 60 5 (fst p)"
    by (simp_all add: inside_def)
  have h7: "\<forall>a\<in>set [MouseEvent EVENT_LBUTTONDOWN 5 5, FrameStep scenario_tracks]. \<not> is_reset a"
    by (simp add: EVENT_LBUTTONDOWN_def EVENT_RBUTTONDOWN_def)
  have m1: "hits 50 50 frame_seen = []" and m2: "hits 60 5 frame_seen = []"
    by (simp_all add: hits_def inside_def frame_seen_def)
  have m3: "list_all (\<lambda>a. \<not> is_reset a)
              [MouseEvent EVENT_LBUTTONDOWN 5 5, FrameStep scenario_tracks]"
    by (simp add: EVENT_LBUTTONDOWN_def EVENT_RBUTTONDOWN_def)
  from missed_clicks_use_up_the_counter [OF h1 h2 h3 h4 h5 h6 h7, of 50 50 frame_seen]
    h1 h2 h3 h4 m1 m2 m3
  show ?thesis by simp
qed

subsection \<open>The size of the selection\<close>

text \<open>
  Claim C2 fails on the code. A click adds every detection whose box contains the point,
  and the handler bounds the number of clicks, not the size of the selection: one click in
  the overlap of two boxes and one click on a third object select three. A frame then
  measures nothing, since it measures only when exactly two are selected.
\<close>

theorem three_selected_by_two_clicks:
  "run [FrameStep overlap_tracks, MouseEvent EVENT_LBUTTONDOWN 7 7,
        MouseEvent EVENT_LBUTTONDOWN 25 25] (init 10 example_names)
     = Inr overlap_three_selected
   \<and> length (selected_boxes overlap_three_selected) = 3
   \<and> \<not> length (selected_boxes overlap_three_selected) \<le> 2
   \<and> start_process overlap_tracks overlap_three_selected = Inr (overlap_three_selected, None)"
  by (simp add: handler_eval frame_eval inside_def overlap_tracks_def overlap_two_selected_def
      overlap_three_selected_def)

section \<open>Frames\<close>




text \<open>
  Claim C8. With the two detections of the scenario, a name for their class and ten pixels per
  meter, a click
  strictly inside each box selects both objects, and the next frame plots the centroids
  \<open>(5, 5)\<close> and \<open>(105, 5)\<close>, a hundred pixels apart, with a distance of 10 meters and
  10000 millimeters. The centroids are listed in the order of the clicks.
\<close>

theorem scenario_distance:
  assumes "0 < xa" "xa < 10" "0 < ya" "ya < 10"
    and "100 < xb" "xb < 110" "0 < yb" "yb < 10"
    and "map_of nm 0 = Some label"
  shows "run [FrameStep scenario_tracks, MouseEvent EVENT_LBUTTONDOWN xa ya,
              MouseEvent EVENT_LBUTTONDOWN xb yb] (init 10 nm) = Inr (scenario_selected nm)
       \<and> start_process scenario_tracks (scenario_selected nm)
           = Inr ((scenario_selected nm), Some (10, 10000, [(5, 5), (105, 5)]))
       \<and> pixel_distance (5, 5) (105, 5) = 100
       \<and> run [FrameStep scenario_tracks, MouseEvent EVENT_LBUTTONDOWN xb yb,
              MouseEvent EVENT_LBUTTONDOWN xa ya] (init 10 nm)
           = Inr ((scenario_selected nm)\<lparr>selected_boxes := [(2, (100, 0, 110, 10)), (1, (0, 0, 10, 10))]\<rparr>)
       \<and> start_process scenario_tracks
            ((scenario_selected nm)\<lparr>selected_boxes := [(2, (100, 0, 110, 10)), (1, (0, 0, 10, 10))]\<rparr>)
           = Inr ((scenario_selected nm)\<lparr>selected_boxes := [(2, (100, 0, 110, 10)), (1, (0, 0, 10, 10))]\<rparr>,
                  Some (10, 10000, [(105, 5), (5, 5)]))"
proof -
  have a1: "inside xa ya (0, 0, 10, 10)" and a2: "\<not> inside xa ya (100, 0, 110, 10)"
    using assms(1-8) by (simp_all add: inside_def)
  have b1: "inside xb yb (100, 0, 110, 10)" and b2: "\<not> inside xb yb (0, 0, 10, 10)"
    using assms(1-8) by (simp_all add: inside_def)
  have r1: "run [FrameStep scenario_tracks, MouseEvent EVENT_LBUTTONDOWN xa ya,
              MouseEvent EVENT_LBUTTONDOWN xb yb] (init 10 nm) = Inr (scenario_selected nm)"
    by (simp add: handler_eval frame_eval scenario_tracks_def scenario_selected_def
        a1 a2 b1 b2 assms(9))
  have r2: "run [FrameStep scenario_tracks, MouseEvent EVENT_LBUTTONDOWN xb yb,
              MouseEvent EVENT_LBUTTONDOWN xa ya] (init 10 nm)
           = Inr ((scenario_selected nm)\<lparr>selected_boxes := [(2, (100, 0, 110, 10)), (1, (0, 0, 10, 10))]\<rparr>)"
    by (simp add: handler_eval frame_eval scenario_tracks_def scenario_selected_def
        a1 a2 b1 b2 assms(9))
  have f1: "start_process scenario_tracks (scenario_selected nm)
           = Inr ((scenario_selected nm), Some (10, 10000, [(5, 5), (105, 5)]))"
    by (simp add: frame_eval Let_def dict_keys_def scenario_tracks_def scenario_selected_def
        pixel_distance_scenario assms(9))
  have f2: "start_process scenario_tracks
            ((scenario_selected nm)\<lparr>selected_boxes := [(2, (100, 0, 110, 10)), (1, (0, 0, 10, 10))]\<rparr>)
           = Inr ((scenario_selected nm)\<lparr>selected_boxes := [(2, (100, 0, 110, 10)), (1, (0, 0, 10, 10))]\<rparr>,
                  Some (10, 10000, [(105, 5), (5, 5)]))"
    by (simp add: frame_eval Let_def dict_keys_def scenario_tracks_def scenario_selected_def
        pixel_distance_scenario assms(9))
  from r1 r2 f1 f2 pixel_distance_scenario(1) show ?thesis by blast
qed

text \<open>
  Clicks at the two centers.
\<close>

theorem scenario_distance_witness:
  "(0::int) < 5 \<and> (5::int) < 10 \<and> (100::int) < 105 \<and> (105::int) < 110
   \<and> map_of example_names 0 = Some ''person''
   \<and> run [FrameStep scenario_tracks, MouseEvent EVENT_LBUTTONDOWN 5 5,
           MouseEvent EVENT_LBUTTONDOWN 105 5] (init 10 example_names)
       = Inr (scenario_selected example_names)
   \<and> start_process scenario_tracks (scenario_selected example_names)
       = Inr (scenario_selected example_names, Some (10, 10000, [(5, 5), (105, 5)]))"
  using scenario_distance [of 5 5 105 5 example_names "''person''"]
  by (simp add: example_names_def)

end
